theory Spec2Isabelle
  imports Main
begin

section \<open>JavaScript values\<close>

text \<open>
  The routes of \<^verbatim>\<open>server/routes/styleguide-routes.ts\<close> work on untyped data:
  the chat responder takes \<^verbatim>\<open>context: any\<close>, request bodies are parsed JSON and
  whatever the storage layer returns is passed on. The values are modelled as the
  JavaScript values JSON can carry, together with \<^verbatim>\<open>undefined\<close> and with the one
  built-in method that reading a property can yield here, \<^verbatim>\<open>String.prototype.sub\<close>.
  Numbers are the integers (no arithmetic is done on them in this file); objects are
  plain objects, written as association lists in the order of the source's object
  literals.
\<close>

datatype jsval =
    Undefined
  | Null
  | Bool bool
  | Num int
  | Str string
  | Arr "jsval list"
  | Obj "(string \<times> jsval) list"
  | String_prototype_sub

text \<open>What a thrown value can be here: the runtime's TypeError (reading a property of
  \<^verbatim>\<open>undefined\<close> or \<^verbatim>\<open>null\<close>, calling a method that is not there, converting
  an object that has no usable \<^verbatim>\<open>toString\<close>), its RangeError (a conversion that
  calls itself without end), or a rejection of a storage promise, with any reason.\<close>

datatype exn = TypeError | RangeError | Rejected jsval

definition andThen :: "exn + 'a \<Rightarrow> ('a \<Rightarrow> exn + 'b) \<Rightarrow> exn + 'b" where
  "andThen r f = (case r of Inl e \<Rightarrow> Inl e | Inr x \<Rightarrow> f x)"

definition nullish :: "jsval \<Rightarrow> bool" where
  "nullish v = (v = Undefined \<or> v = Null)"

text \<open>\<^verbatim>\<open>if (!v)\<close> and \<^verbatim>\<open>v || d\<close>: the falsy values are \<^verbatim>\<open>undefined\<close>,
  \<^verbatim>\<open>null\<close>, \<^verbatim>\<open>false\<close>, \<^verbatim>\<open>0\<close> and the empty string.\<close>

fun truthy :: "jsval \<Rightarrow> bool" where
  "truthy Undefined = False"
| "truthy Null = False"
| "truthy (Bool b) = b"
| "truthy (Num n) = (n \<noteq> 0)"
| "truthy (Str s) = (s \<noteq> [])"
| "truthy (Arr xs) = True"
| "truthy (Obj kvs) = True"
| "truthy String_prototype_sub = True"

definition logical_or :: "jsval \<Rightarrow> jsval \<Rightarrow> jsval" where
  "logical_or a b = (if truthy a then a else b)"

text \<open>
  Reading a property \<^verbatim>\<open>v.k\<close> of a value that is neither \<^verbatim>\<open>undefined\<close> nor
  \<^verbatim>\<open>null\<close>, for the property names this file reads (\<^verbatim>\<open>claims\<close>,
  \<^verbatim>\<open>sub\<close>, \<^verbatim>\<open>message\<close>, \<^verbatim>\<open>currentStyleguide\<close>, the fields of a
  template and of the onboarding data). An object has the properties it was given. Of the
  prototypes, only two carry one of these names: a string has the method
  \<^verbatim>\<open>sub\<close>, and a function has its \<^verbatim>\<open>name\<close>. Everything else is
  \<^verbatim>\<open>undefined\<close>.
\<close>

fun get_property :: "jsval \<Rightarrow> string \<Rightarrow> jsval" where
  "get_property (Obj kvs) k = (case map_of kvs k of None \<Rightarrow> Undefined | Some v \<Rightarrow> v)"
| "get_property (Str s) k = (if k = ''sub'' then String_prototype_sub else Undefined)"
| "get_property String_prototype_sub k = (if k = ''name'' then Str ''sub'' else Undefined)"
| "get_property v k = Undefined"

text \<open>\<^verbatim>\<open>v.k\<close> raises a TypeError on \<^verbatim>\<open>undefined\<close> and \<^verbatim>\<open>null\<close>;
  \<^verbatim>\<open>v?.k\<close> is \<^verbatim>\<open>undefined\<close> there.\<close>

definition member :: "jsval \<Rightarrow> string \<Rightarrow> exn + jsval" where
  "member v k = (if nullish v then Inl TypeError else Inr (get_property v k))"

definition optional_member :: "jsval \<Rightarrow> string \<Rightarrow> jsval" where
  "optional_member v k = (if nullish v then Undefined else get_property v k)"

text \<open>\<^verbatim>\<open>xs[0]\<close> on an array: \<^verbatim>\<open>undefined\<close> when the array is empty.\<close>

definition index0 :: "jsval list \<Rightarrow> jsval" where
  "index0 xs = (case xs of [] \<Rightarrow> Undefined | x # _ \<Rightarrow> x)"

section \<open>String built-ins\<close>

text \<open>
  Strings are byte strings. \<^verbatim>\<open>toLowerCase\<close> is modelled on the ASCII letters and
  leaves every other byte as it is: the bytes of a non-ASCII character are all above
  127, so they never take part in a match of the ASCII keywords searched for below.
\<close>

definition toLowerCase_char :: "char \<Rightarrow> char" where
  "toLowerCase_char c =
     (let n = (of_char c :: nat) in if 65 \<le> n \<and> n \<le> 90 then char_of (n + 32) else c)"

definition toLowerCase :: "string \<Rightarrow> string" where
  "toLowerCase s = map toLowerCase_char s"

text \<open>The method call \<^verbatim>\<open>v.toLowerCase()\<close> on an untyped value: only a string has
  the method.\<close>

fun call_toLowerCase :: "jsval \<Rightarrow> exn + string" where
  "call_toLowerCase (Str s) = Inr (toLowerCase s)"
| "call_toLowerCase v = Inl TypeError"

fun startsWith :: "string \<Rightarrow> string \<Rightarrow> bool" where
  "startsWith s [] = True"
| "startsWith [] (d # sub) = False"
| "startsWith (c # s) (d # sub) = (c = d \<and> startsWith s sub)"

text \<open>\<^verbatim>\<open>s.includes(sub)\<close>: is there a position of \<open>s\<close> at which \<open>sub\<close> starts.\<close>

fun str_includes :: "string \<Rightarrow> string \<Rightarrow> bool" where
  "str_includes [] sub = (sub = [])"
| "str_includes (c # s) sub = (startsWith (c # s) sub \<or> str_includes s sub)"

text \<open>Printing an integer: plain decimal, as JavaScript prints it below \<open>10\<^sup>2\<^sup>1\<close>.\<close>

definition digit :: "nat \<Rightarrow> char" where
  "digit d = char_of (of_char (CHR ''0'') + d)"

fun decimal :: "nat \<Rightarrow> string" where
  "decimal n = (if n div 10 = 0 then [digit n] else decimal (n div 10) @ [digit (n mod 10)])"

definition Number_toString :: "int \<Rightarrow> string" where
  "Number_toString i = (if 0 \<le> i then decimal (nat i) else CHR ''-'' # decimal (nat (- i)))"

fun join :: "string \<Rightarrow> string list \<Rightarrow> string" where
  "join sep [] = []"
| "join sep [x] = x"
| "join sep (x # y # ys) = x @ sep @ join sep (y # ys)"

text \<open>Running a list of steps in order: the first one that raises ends the run.\<close>

fun in_order :: "(exn + 'a) list \<Rightarrow> exn + 'a list" where
  "in_order [] = Inr []"
| "in_order (Inl e # rs) = Inl e"
| "in_order (Inr x # rs) = andThen (in_order rs) (\<lambda>xs. Inr (x # xs))"

definition callable :: "jsval \<Rightarrow> bool" where
  "callable v = (v = String_prototype_sub)"

text \<open>
  Conversion to a string, as a template literal does for each interpolated value.
  \<^item> An array is its elements joined by commas, converted from left to right, with nothing
    for \<^verbatim>\<open>undefined\<close> and \<^verbatim>\<open>null\<close>.
  \<^item> A plain object without a \<^verbatim>\<open>toString\<close> property of its own inherits the one
    that answers \<^verbatim>\<open>[object Object]\<close>. With one of its own that is not a function,
    the conversion turns to \<^verbatim>\<open>valueOf\<close>: the inherited one returns the object
    itself and one that is not a function is passed over, so a TypeError is raised.
  \<^item> \<^verbatim>\<open>String.prototype.sub\<close> in the place of either method converts the object it is
    called on to a string again, without end: the runtime stops it with a RangeError.
\<close>

fun toString :: "jsval \<Rightarrow> exn + string" where
  "toString Undefined = Inr ''undefined''"
| "toString Null = Inr ''null''"
| "toString (Bool b) = Inr (if b then ''true'' else ''false'')"
| "toString (Num n) = Inr (Number_toString n)"
| "toString (Str s) = Inr s"
| "toString (Arr xs) =
     andThen (in_order (map (\<lambda>x. if nullish x then Inr [] else toString x) xs))
       (\<lambda>parts. Inr (join '','' parts))"
| "toString (Obj kvs) =
     (case map_of kvs ''toString'' of
        None \<Rightarrow> Inr ''[object Object]''
      | Some m \<Rightarrow>
          if callable m then Inl RangeError
          else (case map_of kvs ''valueOf'' of
                  None \<Rightarrow> Inl TypeError
                | Some m' \<Rightarrow> if callable m' then Inl RangeError else Inl TypeError))"
| "toString String_prototype_sub = Inr ''function sub() { [native code] }''"

section \<open>The chat responder\<close>

text \<open>The context object built by the chat route and destructured by
  \<^verbatim>\<open>generateSandraStyleguideResponse\<close>.\<close>

record chat_context =
  message :: jsval
  userId :: jsval
  onboardingData :: jsval
  currentStyleguide :: jsval
  availableTemplates :: "jsval list"

text \<open>
  \<^verbatim>\<open>message.toLowerCase().includes('create') || message.toLowerCase().includes('new')
  || message.toLowerCase().includes('generate')\<close>, evaluated left to right.
\<close>

definition isCreationRequest :: "jsval \<Rightarrow> exn + bool" where
  "isCreationRequest msg =
     andThen (call_toLowerCase msg) (\<lambda>l1.
       if str_includes l1 ''create'' then Inr True
       else andThen (call_toLowerCase msg) (\<lambda>l2.
         if str_includes l2 ''new'' then Inr True
         else andThen (call_toLowerCase msg) (\<lambda>l3.
           Inr (str_includes l3 ''generate''))))"

text \<open>The template literal of the creation answer: each interpolated expression is
  evaluated and converted to a string before the next one is looked at.\<close>

definition creation_message :: "jsval \<Rightarrow> exn + string" where
  "creation_message template =
     andThen (andThen (member template ''name'') toString) (\<lambda>name.
     andThen (andThen (member template ''description'') call_toLowerCase) (\<lambda>description.
     andThen (andThen (andThen (member template ''typography'') (\<lambda>t. member t ''headline''))
                toString) (\<lambda>headline.
     andThen (andThen (andThen (member template ''colors'') (\<lambda>c. member c ''primary''))
                toString) (\<lambda>primary.
       Inr (''I've created a beautiful \"'' @ name
            @ ''\" styleguide for you! This template features '' @ description
            @ ''. It uses '' @ headline
            @ '' typography and a sophisticated color palette with '' @ primary
            @ '' as the primary color. Perfect for your brand personality!'')))))"

definition creation_styleguideData :: "jsval \<Rightarrow> jsval \<Rightarrow> exn + jsval" where
  "creation_styleguideData template onboarding =
     andThen (member template ''id'') (\<lambda>tid.
     andThen (member template ''name'') (\<lambda>name.
     andThen (member template ''colors'') (\<lambda>colors.
     andThen (member template ''typography'') (\<lambda>typography.
     andThen (member template ''voiceProfile'') (\<lambda>voiceProfile.
     andThen (member template ''visualElements'') (\<lambda>visualElements.
       Inr (Obj
         [(''templateId'', tid),
          (''templateName'', name),
          (''colors'', colors),
          (''typography'', typography),
          (''voiceProfile'', voiceProfile),
          (''visualElements'', visualElements),
          (''personalMission'',
             logical_or (optional_member onboarding ''personalMission'')
               (Str ''Your unique mission and vision'')),
          (''brandVoice'',
             logical_or (optional_member onboarding ''brandVoice'')
               (Str ''Professional and authentic'')),
          (''targetAudience'',
             logical_or (optional_member onboarding ''targetAudience'')
               (Str ''Your ideal clients''))])))))))"

text \<open>The branch taken on a creation request.\<close>

definition creation_response :: "jsval \<Rightarrow> jsval list \<Rightarrow> exn + jsval" where
  "creation_response onboarding templates =
     (let template = index0 templates in
      andThen (creation_message template) (\<lambda>msg.
      andThen (creation_styleguideData template onboarding) (\<lambda>styleguideData.
      andThen (member template ''id'') (\<lambda>tid.
        Inr (Obj
          [(''type'', Str ''styleguide_created''),
           (''message'', Str msg),
           (''styleguideData'', styleguideData),
           (''templateApplied'', tid)])))))"

text \<open>The value returned otherwise.\<close>

definition conversation_response :: jsval where
  "conversation_response =
     Obj
       [(''type'', Str ''conversation''),
        (''message'', Str (''I'd love to help you create your personalized styleguide! ''
           @ ''I can create a beautiful brand bible using your AI images, personal story, ''
           @ ''and preferences. Just say \"create my styleguide\" and I'll get started!'')),
        (''suggestions'',
           Arr [Str ''Create my styleguide'',
                Str ''Show me templates'',
                Str ''What information do you need?''])]"

definition generateSandraStyleguideResponse :: "chat_context \<Rightarrow> exn + jsval" where
  "generateSandraStyleguideResponse ctx =
     andThen (isCreationRequest (message ctx)) (\<lambda>creation.
       if creation then creation_response (onboardingData ctx) (availableTemplates ctx)
       else Inr conversation_response)"

section \<open>The route handlers\<close>

text \<open>
  What a handler reads of the Express request: the \<^verbatim>\<open>:userId\<close> path parameter,
  \<^verbatim>\<open>req.user\<close> (set by the authentication layer, absent when there is no session)
  and the parsed \<^verbatim>\<open>req.body\<close>. What it sends: one status and one body, the value
  handed to \<^verbatim>\<open>res.json\<close> (which alone sends status 200). The two POST routes are
  registered behind the \<^verbatim>\<open>isAuthenticated\<close> middleware of \<^verbatim>\<open>../replitAuth\<close>;
  the handlers below are what runs once it has let a request through.
\<close>

record request =
  req_params_userId :: string
  req_user :: jsval
  req_body :: jsval

record response =
  status :: nat
  json_body :: jsval

text \<open>
  The storage module is imported from \<^verbatim>\<open>../storage\<close> and is not part of this file:
  its two operations are parameters, over any type of persisted state. An operation
  returns its value or rejects, and leaves a state behind in both cases.
\<close>

record 'st storage =
  createOrUpdateStyleguide :: "jsval \<Rightarrow> jsval \<Rightarrow> 'st \<Rightarrow> (exn + jsval) \<times> 'st"
  getOnboardingData :: "jsval \<Rightarrow> 'st \<Rightarrow> (exn + jsval) \<times> 'st"

datatype storage_call =
    CreateOrUpdateStyleguide jsval jsval
  | GetOnboardingData jsval

text \<open>The world a handler runs in: the persisted state, the storage calls made so far,
  and what was written with \<^verbatim>\<open>console.error\<close>.\<close>

record 'st world =
  store :: 'st
  storage_calls :: "storage_call list"
  console_error :: "(string \<times> exn) list"

definition await_createOrUpdateStyleguide ::
  "'st storage \<Rightarrow> jsval \<Rightarrow> jsval \<Rightarrow> 'st world \<Rightarrow> (exn + jsval) \<times> 'st world" where
  "await_createOrUpdateStyleguide S uid data w =
     (case createOrUpdateStyleguide S uid data (store w) of
        (r, st) \<Rightarrow>
          (r, w\<lparr>store := st,
                 storage_calls := storage_calls w @ [CreateOrUpdateStyleguide uid data]\<rparr>))"

definition await_getOnboardingData ::
  "'st storage \<Rightarrow> jsval \<Rightarrow> 'st world \<Rightarrow> (exn + jsval) \<times> 'st world" where
  "await_getOnboardingData S uid w =
     (case getOnboardingData S uid (store w) of
        (r, st) \<Rightarrow>
          (r, w\<lparr>store := st, storage_calls := storage_calls w @ [GetOnboardingData uid]\<rparr>))"

text \<open>\<^verbatim>\<open>try { body } catch (error) { handler }\<close> around awaited calls.\<close>

definition try_catch ::
  "('w \<Rightarrow> (exn + 'a) \<times> 'w) \<Rightarrow> (exn \<Rightarrow> 'w \<Rightarrow> (exn + 'a) \<times> 'w) \<Rightarrow> 'w \<Rightarrow> (exn + 'a) \<times> 'w" where
  "try_catch body handler w =
     (case body w of
        (Inl error, w') \<Rightarrow> handler error w'
      | (Inr x, w') \<Rightarrow> (Inr x, w'))"

text \<open>The four catch blocks have one shape: log the error under a label, answer 500
  with a message.\<close>

definition catch_block ::
  "string \<Rightarrow> string \<Rightarrow> exn \<Rightarrow> 'st world \<Rightarrow> (exn + response) \<times> 'st world" where
  "catch_block label failure error w =
     (Inr \<lparr>status = 500, json_body = Obj [(''message'', Str failure)]\<rparr>,
      w\<lparr>console_error := console_error w @ [(label, error)]\<rparr>)"

text \<open>\<^verbatim>\<open>req.user?.claims?.sub\<close>\<close>

definition caller_identity :: "request \<Rightarrow> jsval" where
  "caller_identity req = optional_member (optional_member (req_user req) ''claims'') ''sub''"

definition unauthenticated :: response where
  "unauthenticated = \<lparr>status = 401, json_body = Obj [(''message'', Str ''User not authenticated'')]\<rparr>"

subsection \<open>GET /api/styleguide/:userId\<close>

text \<open>The demo document. Its last two fields are \<^verbatim>\<open>new Date().toISOString()\<close>,
  read from the clock twice on every request: the two readings are parameters.\<close>

definition demoStyleguide :: "string \<Rightarrow> string \<Rightarrow> jsval" where
  "demoStyleguide createdAt updatedAt =
     Obj
       [(''id'', Num 1),
        (''userId'', Str ''demo123''),
        (''templateId'', Str ''minimalistic''),
        (''title'', Str ''Sarah Johnson''),
        (''subtitle'', Str ''Strategic Brand Consultant''),
        (''personalMission'', Str (''Empowering women entrepreneurs to build authentic, ''
           @ ''profitable brands that reflect their true essence and create meaningful ''
           @ ''impact in the world.'')),
        (''brandVoice'', Str (''Warm, professional, and inspiring with an authentic, ''
           @ ''conversational tone that makes complex business concepts feel accessible ''
           @ ''and achievable.'')),
        (''targetAudience'', Str (''Ambitious women entrepreneurs ready to elevate their ''
           @ ''brand and scale their business with authentic, strategic positioning.'')),
        (''visualStyle'', Str ''Refined minimal with editorial sophistication''),
        (''colorPalette'', Obj
           [(''primary'', Str ''#1a1a1a''),
            (''secondary'', Str ''#666666''),
            (''accent'', Str ''#f8f8f8''),
            (''text'', Str ''#1a1a1a''),
            (''background'', Str ''#fefefe''),
            (''border'', Str ''#f0f0f0'')]),
        (''typography'', Obj
           [(''headline'', Str ''Helvetica Neue, sans-serif''),
            (''subheading'', Str ''Helvetica Neue, sans-serif''),
            (''body'', Str ''Helvetica Neue, sans-serif''),
            (''accent'', Str ''Helvetica Neue, sans-serif'')]),
        (''imageSelections'', Obj
           [(''heroImage'', Str ''https://i.postimg.cc/VLCFmXVr/1.png''),
            (''portraitImages'', Arr
               [Str ''https://i.postimg.cc/VLCFmXVr/1.png'',
                Str ''https://i.postimg.cc/WpDyqFyj/10.png'',
                Str ''https://i.postimg.cc/SRz1B3Hk/11.png'']),
            (''lifestyleImages'', Arr
               [Str ''https://i.postimg.cc/VLCFmXVr/1.png'',
                Str ''https://i.postimg.cc/WpDyqFyj/10.png'',
                Str ''https://i.postimg.cc/SRz1B3Hk/11.png'',
                Str ''https://i.postimg.cc/VLCFmXVr/1.png''])]),
        (''brandPersonality'', Obj
           [(''traits'', Arr
               [Str ''Authentic'', Str ''Professional'', Str ''Inspiring'',
                Str ''Strategic'', Str ''Warm'', Str ''Confident'']),
            (''keywords'', Arr [Str ''Authentic'', Str ''Strategic'', Str ''Inspiring'']),
            (''vibe'', Str ''Refined Minimal Professional'')]),
        (''businessApplications'', Obj
           [(''primaryService'', Str ''Strategic Brand Consulting''),
            (''priceRange'', Str ''Premium Investment''),
            (''clientExperience'', Str ''Transformational & Personal'')]),
        (''isActive'', Bool True),
        (''createdAt'', Str createdAt),
        (''updatedAt'', Str updatedAt)]"

definition try_GET_styleguide ::
  "string \<Rightarrow> string \<Rightarrow> request \<Rightarrow> 'st world \<Rightarrow> (exn + response) \<times> 'st world" where
  "try_GET_styleguide createdAt updatedAt req w =
     (let userId = req_params_userId req in
      if userId = ''demo123''
      then (Inr \<lparr>status = 200, json_body = demoStyleguide createdAt updatedAt\<rparr>, w)
      else (Inr \<lparr>status = 404, json_body = Obj [(''message'', Str ''Styleguide not found'')]\<rparr>, w))"

definition GET_styleguide ::
  "string \<Rightarrow> string \<Rightarrow> request \<Rightarrow> 'st world \<Rightarrow> (exn + response) \<times> 'st world" where
  "GET_styleguide createdAt updatedAt req =
     try_catch (try_GET_styleguide createdAt updatedAt req)
       (catch_block ''Error fetching styleguide:'' ''Failed to fetch styleguide'')"

subsection \<open>POST /api/styleguide\<close>

definition try_POST_styleguide ::
  "'st storage \<Rightarrow> request \<Rightarrow> 'st world \<Rightarrow> (exn + response) \<times> 'st world" where
  "try_POST_styleguide S req w =
     (let userId = caller_identity req in
      if \<not> truthy userId then (Inr unauthenticated, w)
      else
        (let styleguideData = req_body req in
         case await_createOrUpdateStyleguide S userId styleguideData w of
           (Inl error, w') \<Rightarrow> (Inl error, w')
         | (Inr styleguide, w') \<Rightarrow> (Inr \<lparr>status = 200, json_body = styleguide\<rparr>, w')))"

definition POST_styleguide ::
  "'st storage \<Rightarrow> request \<Rightarrow> 'st world \<Rightarrow> (exn + response) \<times> 'st world" where
  "POST_styleguide S req =
     try_catch (try_POST_styleguide S req)
       (catch_block ''Error creating styleguide:'' ''Failed to create styleguide'')"

subsection \<open>GET /api/styleguide-templates\<close>

text \<open>\<^verbatim>\<open>minimalisticTemplate\<close> is imported from the shared templates and is not part
  of this file: it is a parameter.\<close>

definition try_GET_styleguide_templates ::
  "jsval \<Rightarrow> request \<Rightarrow> 'st world \<Rightarrow> (exn + response) \<times> 'st world" where
  "try_GET_styleguide_templates minimalisticTemplate req w =
     (let templates = [minimalisticTemplate] in
      (Inr \<lparr>status = 200, json_body = Arr templates\<rparr>, w))"

definition GET_styleguide_templates ::
  "jsval \<Rightarrow> request \<Rightarrow> 'st world \<Rightarrow> (exn + response) \<times> 'st world" where
  "GET_styleguide_templates minimalisticTemplate req =
     try_catch (try_GET_styleguide_templates minimalisticTemplate req)
       (catch_block ''Error fetching templates:'' ''Failed to fetch templates'')"

subsection \<open>POST /api/styleguide-chat\<close>

text \<open>\<^verbatim>\<open>const { message, currentStyleguide } = req.body\<close> raises a TypeError when the
  body is \<^verbatim>\<open>undefined\<close> or \<^verbatim>\<open>null\<close>.\<close>

definition try_POST_styleguide_chat ::
  "'st storage \<Rightarrow> jsval \<Rightarrow> request \<Rightarrow> 'st world \<Rightarrow> (exn + response) \<times> 'st world" where
  "try_POST_styleguide_chat S minimalisticTemplate req w =
     (let uid = caller_identity req in
      if \<not> truthy uid then (Inr unauthenticated, w)
      else
        (case andThen (member (req_body req) ''message'') (\<lambda>msg.
              andThen (member (req_body req) ''currentStyleguide'') (\<lambda>cur. Inr (msg, cur))) of
           Inl error \<Rightarrow> (Inl error, w)
         | Inr (msg, cur) \<Rightarrow>
             (case await_getOnboardingData S uid w of
                (Inl error, w') \<Rightarrow> (Inl error, w')
              | (Inr onboarding, w') \<Rightarrow>
                  (case generateSandraStyleguideResponse
                          \<lparr>message = msg,
                           userId = uid,
                           onboardingData = onboarding,
                           currentStyleguide = cur,
                           availableTemplates = [minimalisticTemplate]\<rparr> of
                     Inl error \<Rightarrow> (Inl error, w')
                   | Inr response \<Rightarrow> (Inr \<lparr>status = 200, json_body = response\<rparr>, w')))))"

definition POST_styleguide_chat ::
  "'st storage \<Rightarrow> jsval \<Rightarrow> request \<Rightarrow> 'st world \<Rightarrow> (exn + response) \<times> 'st world" where
  "POST_styleguide_chat S minimalisticTemplate req =
     try_catch (try_POST_styleguide_chat S minimalisticTemplate req)
       (catch_block ''Error in SANDRA styleguide chat:'' ''Failed to process styleguide request'')"

subsection \<open>registerStyleguideRoutes\<close>

datatype route =
    Get_styleguide
  | Post_styleguide
  | Get_styleguide_templates
  | Post_styleguide_chat

text \<open>The body of each route's \<^verbatim>\<open>try\<close>, and the handler registered for it.\<close>

fun route_try ::
  "'st storage \<Rightarrow> jsval \<Rightarrow> string \<Rightarrow> string \<Rightarrow> route \<Rightarrow> request \<Rightarrow> 'st world
     \<Rightarrow> (exn + response) \<times> 'st world" where
  "route_try S tmpl createdAt updatedAt Get_styleguide = try_GET_styleguide createdAt updatedAt"
| "route_try S tmpl createdAt updatedAt Post_styleguide = try_POST_styleguide S"
| "route_try S tmpl createdAt updatedAt Get_styleguide_templates = try_GET_styleguide_templates tmpl"
| "route_try S tmpl createdAt updatedAt Post_styleguide_chat = try_POST_styleguide_chat S tmpl"

fun registerStyleguideRoutes ::
  "'st storage \<Rightarrow> jsval \<Rightarrow> string \<Rightarrow> string \<Rightarrow> route \<Rightarrow> request \<Rightarrow> 'st world
     \<Rightarrow> (exn + response) \<times> 'st world" where
  "registerStyleguideRoutes S tmpl createdAt updatedAt Get_styleguide = GET_styleguide createdAt updatedAt"
| "registerStyleguideRoutes S tmpl createdAt updatedAt Post_styleguide = POST_styleguide S"
| "registerStyleguideRoutes S tmpl createdAt updatedAt Get_styleguide_templates = GET_styleguide_templates tmpl"
| "registerStyleguideRoutes S tmpl createdAt updatedAt Post_styleguide_chat = POST_styleguide_chat S tmpl"

text \<open>The shape \<^verbatim>\<open>{ message: string }\<close>.\<close>

fun message_body :: "jsval \<Rightarrow> bool" where
  "message_body (Obj [(k, Str s)]) = (k = ''message'')"
| "message_body v = False"

section \<open>The schema\<close>

text \<open>
  The tables the uniqueness rules are about, as the \<^verbatim>\<open>pgTable\<close> declarations give
  them. A row is a record of its columns under their SQL names; every column is
  nullable in the row type (\<open>None\<close> is SQL \<^verbatim>\<open>NULL\<close>), and what the declaration adds
  with \<^verbatim>\<open>.notNull()\<close>, \<^verbatim>\<open>.unique()\<close>, \<^verbatim>\<open>.primaryKey()\<close> and
  \<^verbatim>\<open>.references()\<close> is a constraint on the table. Timestamps are integers.
\<close>

record users_row =
  users_id :: "string option"
  users_email :: "string option"
  users_first_name :: "string option"
  users_last_name :: "string option"
  users_profile_image_url :: "string option"
  users_stripe_customer_id :: "string option"
  users_stripe_subscription_id :: "string option"
  users_created_at :: "int option"
  users_updated_at :: "int option"

record user_models_row =
  user_models_id :: "int option"
  user_models_user_id :: "string option"
  user_models_replicate_model_id :: "string option"
  user_models_trigger_word :: "string option"
  user_models_training_status :: "string option"
  user_models_model_name :: "string option"
  user_models_created_at :: "int option"
  user_models_completed_at :: "int option"

record domains_row =
  domains_id :: "int option"
  domains_user_id :: "string option"
  domains_domain :: "string option"
  domains_subdomain :: "string option"
  domains_is_verified :: "bool option"
  domains_dns_records :: "jsval option"
  domains_ssl_status :: "string option"
  domains_connected_to :: "string option"
  domains_resource_id :: "int option"
  domains_created_at :: "int option"
  domains_updated_at :: "int option"

record database =
  users :: "users_row list"
  user_models :: "user_models_row list"
  domains :: "domains_row list"

text \<open>The constraints, with SQL's reading of \<^verbatim>\<open>UNIQUE\<close>: no two rows hold the same
  value that is not \<^verbatim>\<open>NULL\<close>.\<close>

definition not_null :: "('r \<Rightarrow> 'a option) \<Rightarrow> 'r list \<Rightarrow> bool" where
  "not_null col rows = list_all (\<lambda>r. col r \<noteq> None) rows"

definition sql_unique :: "('r \<Rightarrow> 'a option) \<Rightarrow> 'r list \<Rightarrow> bool" where
  "sql_unique col rows = distinct (filter (\<lambda>v. v \<noteq> None) (map col rows))"

definition primary_key :: "('r \<Rightarrow> 'a option) \<Rightarrow> 'r list \<Rightarrow> bool" where
  "primary_key col rows = (not_null col rows \<and> sql_unique col rows)"

definition foreign_key :: "('r \<Rightarrow> 'a option) \<Rightarrow> 'r list \<Rightarrow> ('t \<Rightarrow> 'a option) \<Rightarrow> 't list \<Rightarrow> bool" where
  "foreign_key col rows target target_rows =
     list_all (\<lambda>r. col r = None \<or> col r \<in> set (map target target_rows)) rows"

definition schema_constraints :: "database \<Rightarrow> bool" where
  "schema_constraints db =
     (primary_key users_id (users db) \<and>
      sql_unique users_email (users db) \<and>
      primary_key user_models_id (user_models db) \<and>
      foreign_key user_models_user_id (user_models db) users_id (users db) \<and>
      not_null user_models_user_id (user_models db) \<and>
      sql_unique user_models_user_id (user_models db) \<and>
      not_null user_models_trigger_word (user_models db) \<and>
      sql_unique user_models_trigger_word (user_models db) \<and>
      primary_key domains_id (domains db) \<and>
      foreign_key domains_user_id (domains db) users_id (users db) \<and>
      not_null domains_user_id (domains db) \<and>
      not_null domains_domain (domains db) \<and>
      sql_unique domains_domain (domains db) \<and>
      sql_unique domains_subdomain (domains db))"

text \<open>The rows of a table that hold a given value in a column.\<close>

definition rows_with :: "('r \<Rightarrow> 'a option) \<Rightarrow> 'a \<Rightarrow> 'r list \<Rightarrow> 'r list" where
  "rows_with col v rows = filter (\<lambda>r. col r = Some v) rows"

section \<open>Vocabulary of the properties\<close>

text \<open>\<^verbatim>\<open>Object.keys\<close>: the field names of an object, in order.\<close>

fun keys :: "jsval \<Rightarrow> string list" where
  "keys (Obj kvs) = map fst kvs"
| "keys v = []"

fun is_string :: "jsval \<Rightarrow> bool" where
  "is_string (Str s) = True"
| "is_string v = False"

text \<open>A value that converts to a string without raising.\<close>

definition printable :: "jsval \<Rightarrow> bool" where
  "printable v = (case toString v of Inl e \<Rightarrow> False | Inr s \<Rightarrow> True)"

text \<open>
  Modelled from the spec: the type of a template is declared with the shared templates
  (\<^verbatim>\<open>shared/templates/template-minimalistic\<close>), which this file only imports. The
  spec has the responder narrate "the chosen template's name, description, typography,
  and primary color": a template is a value with a name that can be written into a text,
  a description that is a string, and typography and colors from which a headline font
  and a primary color can be read and written into a text. This is what the responder
  asks of the fields it dereferences, and no more: \<open>creation_response_returns_iff\<close>
  below.
\<close>

definition is_template :: "jsval \<Rightarrow> bool" where
  "is_template t =
     (\<not> nullish t \<and>
      printable (get_property t ''name'') \<and>
      is_string (get_property t ''description'') \<and>
      \<not> nullish (get_property t ''typography'') \<and>
      printable (get_property (get_property t ''typography'') ''headline'') \<and>
      \<not> nullish (get_property t ''colors'') \<and>
      printable (get_property (get_property t ''colors'') ''primary''))"

text \<open>The label each route logs under and the message it answers with when its
  \<^verbatim>\<open>catch\<close> runs.\<close>

fun failure_label :: "route \<Rightarrow> string" where
  "failure_label Get_styleguide = ''Error fetching styleguide:''"
| "failure_label Post_styleguide = ''Error creating styleguide:''"
| "failure_label Get_styleguide_templates = ''Error fetching templates:''"
| "failure_label Post_styleguide_chat = ''Error in SANDRA styleguide chat:''"

fun failure_message :: "route \<Rightarrow> string" where
  "failure_message Get_styleguide = ''Failed to fetch styleguide''"
| "failure_message Post_styleguide = ''Failed to create styleguide''"
| "failure_message Get_styleguide_templates = ''Failed to fetch templates''"
| "failure_message Post_styleguide_chat = ''Failed to process styleguide request''"

section \<open>Example data\<close>

text \<open>A template with the fields the responder reads, a storage that keeps one styleguide
  per user and has no onboarding data, a storage whose calls all reject, a world in which
  nothing has happened yet, requests with and without a session, and a small database.\<close>

definition example_template :: jsval where
  "example_template =
     Obj
       [(''id'', Str ''minimalistic''),
        (''name'', Str ''Refined Minimal''),
        (''description'', Str ''Clean Lines and Generous Whitespace''),
        (''colors'', Obj [(''primary'', Str ''#1a1a1a''), (''background'', Str ''#fefefe'')]),
        (''typography'', Obj [(''headline'', Str ''Helvetica Neue''), (''body'', Str ''Inter'')]),
        (''voiceProfile'', Obj [(''tone'', Str ''calm'')]),
        (''visualElements'', Arr [Str ''thin rules''])]"

definition example_storage :: "(jsval \<times> jsval) list storage" where
  "example_storage =
     \<lparr>createOrUpdateStyleguide =
        (\<lambda>uid data st. (Inr data, (uid, data) # filter (\<lambda>p. fst p \<noteq> uid) st)),
      getOnboardingData = (\<lambda>uid st. (Inr Undefined, st))\<rparr>"

definition rejecting_storage :: "(jsval \<times> jsval) list storage" where
  "rejecting_storage =
     \<lparr>createOrUpdateStyleguide =
        (\<lambda>uid data st. (Inl (Rejected (Str ''connection lost'')), st)),
      getOnboardingData = (\<lambda>uid st. (Inl (Rejected (Str ''connection lost'')), st))\<rparr>"

definition example_world :: "(jsval \<times> jsval) list world" where
  "example_world = \<lparr>store = [], storage_calls = [], console_error = []\<rparr>"

definition anonymous_request :: request where
  "anonymous_request =
     \<lparr>req_params_userId = [], req_user = Undefined, req_body = Obj [(''title'', Str ''Mine'')]\<rparr>"

definition signed_in_request :: request where
  "signed_in_request =
     \<lparr>req_params_userId = [],
      req_user = Obj [(''claims'', Obj [(''sub'', Str ''user-1'')])],
      req_body = Obj [(''title'', Str ''Mine'')]\<rparr>"

definition example_database :: database where
  "example_database =
     \<lparr>users =
        [\<lparr>users_id = Some ''u1'', users_email = Some ''a@example.com'', users_first_name = None,
          users_last_name = None, users_profile_image_url = None, users_stripe_customer_id = None,
          users_stripe_subscription_id = None, users_created_at = Some 0, users_updated_at = Some 0\<rparr>,
         \<lparr>users_id = Some ''u2'', users_email = None, users_first_name = None,
          users_last_name = None, users_profile_image_url = None, users_stripe_customer_id = None,
          users_stripe_subscription_id = None, users_created_at = Some 1, users_updated_at = Some 1\<rparr>],
      user_models =
        [\<lparr>user_models_id = Some 1, user_models_user_id = Some ''u1'',
          user_models_replicate_model_id = None, user_models_trigger_word = Some ''user1'',
          user_models_training_status = Some ''pending'', user_models_model_name = None,
          user_models_created_at = Some 2, user_models_completed_at = None\<rparr>,
         \<lparr>user_models_id = Some 2, user_models_user_id = Some ''u2'',
          user_models_replicate_model_id = None, user_models_trigger_word = Some ''user2'',
          user_models_training_status = Some ''completed'', user_models_model_name = None,
          user_models_created_at = Some 3, user_models_completed_at = Some 4\<rparr>],
      domains =
        [\<lparr>domains_id = Some 1, domains_user_id = Some ''u1'', domains_domain = Some ''one.example'',
          domains_subdomain = None, domains_is_verified = Some False, domains_dns_records = None,
          domains_ssl_status = Some ''pending'', domains_connected_to = None,
          domains_resource_id = None, domains_created_at = Some 5, domains_updated_at = Some 5\<rparr>,
         \<lparr>domains_id = Some 2, domains_user_id = Some ''u1'', domains_domain = Some ''two.example'',
          domains_subdomain = None, domains_is_verified = Some False, domains_dns_records = None,
          domains_ssl_status = Some ''pending'', domains_connected_to = None,
          domains_resource_id = None, domains_created_at = Some 6, domains_updated_at = Some 6\<rparr>,
         \<lparr>domains_id = Some 3, domains_user_id = Some ''u2'', domains_domain = Some ''three.example'',
          domains_subdomain = Some ''three'', domains_is_verified = Some True,
          domains_dns_records = None, domains_ssl_status = Some ''active'',
          domains_connected_to = Some ''dashboard'', domains_resource_id = Some 9,
          domains_created_at = Some 7, domains_updated_at = Some 7\<rparr>]\<rparr>"

section \<open>Properties of the string built-ins\<close>

lemma startsWith_iff: "startsWith s sub \<longleftrightarrow> (\<exists>q. s = sub @ q)"
  by (induction s sub rule: startsWith.induct) auto

lemma str_includes_iff: "str_includes s sub \<longleftrightarrow> (\<exists>p q. s = p @ sub @ q)"
proof (induction s)
  case Nil
  then show ?case by auto
next
  case (Cons c s)
  show ?case
  proof
    assume "str_includes (c # s) sub"
    then consider "startsWith (c # s) sub" | "str_includes s sub" by auto
    then show "\<exists>p q. c # s = p @ sub @ q"
    proof cases
      case 1
      then obtain q where "c # s = sub @ q" using startsWith_iff by blast
      then have "c # s = [] @ sub @ q" by simp
      then show ?thesis by blast
    next
      case 2
      then obtain p q where "s = p @ sub @ q" using Cons.IH by blast
      then have "c # s = (c # p) @ sub @ q" by simp
      then show ?thesis by blast
    qed
  next
    assume "\<exists>p q. c # s = p @ sub @ q"
    then obtain p q where pq: "c # s = p @ sub @ q" by blast
    show "str_includes (c # s) sub"
    proof (cases p)
      case Nil
      with pq have "startsWith (c # s) sub" using startsWith_iff by auto
      then show ?thesis by simp
    next
      case (Cons a p')
      with pq have "s = p' @ sub @ q" by simp
      then have "str_includes s sub" using Cons.IH by blast
      then show ?thesis by simp
    qed
  qed
qed

section \<open>Properties of the responder's parts\<close>

lemma andThen_Inr [simp]: "andThen (Inr x) f = f x"
  by (simp add: andThen_def)

lemma andThen_Inl [simp]: "andThen (Inl e) f = Inl e"
  by (simp add: andThen_def)

lemma isCreationRequest_Str:
  "isCreationRequest (Str m) =
     Inr (str_includes (toLowerCase m) ''create'' \<or> str_includes (toLowerCase m) ''new''
          \<or> str_includes (toLowerCase m) ''generate'')"
  by (simp add: isCreationRequest_def)

lemma is_string_iff: "is_string v \<longleftrightarrow> (\<exists>s. v = Str s)"
  by (cases v) simp_all

lemma printable_iff: "printable v \<longleftrightarrow> (\<exists>s. toString v = Inr s)"
  by (cases "toString v") (simp_all add: printable_def)

lemma creation_message_template:
  assumes "is_template t"
  shows "\<exists>name description headline primary.
     toString (get_property t ''name'') = Inr name
     \<and> get_property t ''description'' = Str description
     \<and> toString (get_property (get_property t ''typography'') ''headline'') = Inr headline
     \<and> toString (get_property (get_property t ''colors'') ''primary'') = Inr primary
     \<and> creation_message t =
         Inr (''I've created a beautiful \"'' @ name
            @ ''\" styleguide for you! This template features '' @ toLowerCase description
            @ ''. It uses '' @ headline
            @ '' typography and a sophisticated color palette with '' @ primary
            @ '' as the primary color. Perfect for your brand personality!'')"
proof -
  from assms obtain name where n: "toString (get_property t ''name'') = Inr name"
    by (auto simp: is_template_def printable_iff)
  from assms obtain description where d: "get_property t ''description'' = Str description"
    by (auto simp: is_template_def is_string_iff)
  from assms obtain headline
    where h: "toString (get_property (get_property t ''typography'') ''headline'') = Inr headline"
    by (auto simp: is_template_def printable_iff)
  from assms obtain primary
    where p: "toString (get_property (get_property t ''colors'') ''primary'') = Inr primary"
    by (auto simp: is_template_def printable_iff)
  from assms have "creation_message t =
         Inr (''I've created a beautiful \"'' @ name
            @ ''\" styleguide for you! This template features '' @ toLowerCase description
            @ ''. It uses '' @ headline
            @ '' typography and a sophisticated color palette with '' @ primary
            @ '' as the primary color. Perfect for your brand personality!'')"
    by (simp add: is_template_def creation_message_def member_def n d h p)
  with n d h p show ?thesis by blast
qed

lemma creation_message_raises:
  assumes "\<not> is_template t"
  shows "\<exists>e. creation_message t = Inl e"
proof (cases "nullish t")
  case True
  then show ?thesis by (simp add: creation_message_def member_def)
next
  case t: False
  show ?thesis
  proof (cases "toString (get_property t ''name'')")
    case (Inl e)
    with t show ?thesis by (simp add: creation_message_def member_def)
  next
    case name: (Inr name)
    show ?thesis
    proof (cases "is_string (get_property t ''description'')")
      case False
      then have "\<exists>e. call_toLowerCase (get_property t ''description'') = Inl e"
        by (cases "get_property t ''description''") simp_all
      then obtain e where "call_toLowerCase (get_property t ''description'') = Inl e" ..
      with t name show ?thesis by (simp add: creation_message_def member_def)
    next
      case True
      then obtain d where d: "get_property t ''description'' = Str d"
        by (auto simp: is_string_iff)
      show ?thesis
      proof (cases "nullish (get_property t ''typography'')")
        case True
        with t name d show ?thesis by (simp add: creation_message_def member_def)
      next
        case ty: False
        show ?thesis
        proof (cases "toString (get_property (get_property t ''typography'') ''headline'')")
          case (Inl e)
          with t name d ty show ?thesis by (simp add: creation_message_def member_def)
        next
          case headline: (Inr headline)
          show ?thesis
          proof (cases "nullish (get_property t ''colors'')")
            case True
            with t name d ty headline show ?thesis
              by (simp add: creation_message_def member_def)
          next
            case co: False
            from assms t name d ty headline co
            have "\<not> printable (get_property (get_property t ''colors'') ''primary'')"
              by (simp add: is_template_def printable_iff)
            then obtain e
              where "toString (get_property (get_property t ''colors'') ''primary'') = Inl e"
              by (cases "toString (get_property (get_property t ''colors'') ''primary'')")
                 (simp_all add: printable_def)
            with t name d ty headline co show ?thesis
              by (simp add: creation_message_def member_def)
          qed
        qed
      qed
    qed
  qed
qed

lemma creation_styleguideData_template:
  "\<not> nullish t \<Longrightarrow>
   creation_styleguideData t ob =
     Inr (Obj
           [(''templateId'', get_property t ''id''),
            (''templateName'', get_property t ''name''),
            (''colors'', get_property t ''colors''),
            (''typography'', get_property t ''typography''),
            (''voiceProfile'', get_property t ''voiceProfile''),
            (''visualElements'', get_property t ''visualElements''),
            (''personalMission'',
               logical_or (optional_member ob ''personalMission'')
                 (Str ''Your unique mission and vision'')),
            (''brandVoice'',
               logical_or (optional_member ob ''brandVoice'') (Str ''Professional and authentic'')),
            (''targetAudience'',
               logical_or (optional_member ob ''targetAudience'') (Str ''Your ideal clients''))])"
  by (simp add: creation_styleguideData_def member_def)

lemma creation_response_template:
  assumes "is_template t"
  shows "\<exists>name description headline primary.
     toString (get_property t ''name'') = Inr name
     \<and> get_property t ''description'' = Str description
     \<and> toString (get_property (get_property t ''typography'') ''headline'') = Inr headline
     \<and> toString (get_property (get_property t ''colors'') ''primary'') = Inr primary
     \<and> creation_response ob (t # ts) =
     Inr (Obj
       [(''type'', Str ''styleguide_created''),
        (''message'', Str (''I've created a beautiful \"'' @ name
            @ ''\" styleguide for you! This template features '' @ toLowerCase description
            @ ''. It uses '' @ headline
            @ '' typography and a sophisticated color palette with '' @ primary
            @ '' as the primary color. Perfect for your brand personality!'')),
        (''styleguideData'', Obj
           [(''templateId'', get_property t ''id''),
            (''templateName'', get_property t ''name''),
            (''colors'', get_property t ''colors''),
            (''typography'', get_property t ''typography''),
            (''voiceProfile'', get_property t ''voiceProfile''),
            (''visualElements'', get_property t ''visualElements''),
            (''personalMission'',
               logical_or (optional_member ob ''personalMission'')
                 (Str ''Your unique mission and vision'')),
            (''brandVoice'',
               logical_or (optional_member ob ''brandVoice'') (Str ''Professional and authentic'')),
            (''targetAudience'',
               logical_or (optional_member ob ''targetAudience'') (Str ''Your ideal clients''))]),
        (''templateApplied'', get_property t ''id'')])"
proof -
  from creation_message_template [OF assms]
  obtain name description headline primary where parts: "toString (get_property t ''name'') = Inr name
     \<and> get_property t ''description'' = Str description
     \<and> toString (get_property (get_property t ''typography'') ''headline'') = Inr headline
     \<and> toString (get_property (get_property t ''colors'') ''primary'') = Inr primary"
    and m: "creation_message t =
         Inr (''I've created a beautiful \"'' @ name
            @ ''\" styleguide for you! This template features '' @ toLowerCase description
            @ ''. It uses '' @ headline
            @ '' typography and a sophisticated color palette with '' @ primary
            @ '' as the primary color. Perfect for your brand personality!'')"
    by blast
  from assms have n: "\<not> nullish t"
    by (simp add: is_template_def)
  have "creation_response ob (t # ts) =
     Inr (Obj
       [(''type'', Str ''styleguide_created''),
        (''message'', Str (''I've created a beautiful \"'' @ name
            @ ''\" styleguide for you! This template features '' @ toLowerCase description
            @ ''. It uses '' @ headline
            @ '' typography and a sophisticated color palette with '' @ primary
            @ '' as the primary color. Perfect for your brand personality!'')),
        (''styleguideData'', Obj
           [(''templateId'', get_property t ''id''),
            (''templateName'', get_property t ''name''),
            (''colors'', get_property t ''colors''),
            (''typography'', get_property t ''typography''),
            (''voiceProfile'', get_property t ''voiceProfile''),
            (''visualElements'', get_property t ''visualElements''),
            (''personalMission'',
               logical_or (optional_member ob ''personalMission'')
                 (Str ''Your unique mission and vision'')),
            (''brandVoice'',
               logical_or (optional_member ob ''brandVoice'') (Str ''Professional and authentic'')),
            (''targetAudience'',
               logical_or (optional_member ob ''targetAudience'') (Str ''Your ideal clients''))]),
        (''templateApplied'', get_property t ''id'')])"
    by (simp add: creation_response_def index0_def m creation_styleguideData_template [OF n]
        member_def n)
  with parts show ?thesis by blast
qed

text \<open>The creation branch returns exactly when the first element of the list is a
  template; on anything else it raises.\<close>

lemma creation_response_returns_iff:
  "(\<exists>r. creation_response ob (t # ts) = Inr r) \<longleftrightarrow> is_template t"
proof
  assume "\<exists>r. creation_response ob (t # ts) = Inr r"
  then obtain r where r: "creation_response ob (t # ts) = Inr r" ..
  show "is_template t"
  proof (rule ccontr)
    assume "\<not> is_template t"
    then obtain e where "creation_message t = Inl e"
      using creation_message_raises by blast
    then have "creation_response ob (t # ts) = Inl e"
      by (simp add: creation_response_def index0_def)
    with r show False by simp
  qed
next
  assume "is_template t"
  from creation_response_template [OF this, of ob ts] show "\<exists>r. creation_response ob (t # ts) = Inr r"
    by blast
qed

text \<open>A value that is no template: its name has a \<^verbatim>\<open>toString\<close> of its own that
  is not a function, and writing it into the message raises.\<close>

lemma creation_response_unprintable_name:
  "creation_response Undefined
     [Obj [(''id'', Str ''odd''),
           (''name'', Obj [(''toString'', Num 1)]),
           (''description'', Str ''Plain''),
           (''typography'', Obj [(''headline'', Str ''Inter'')]),
           (''colors'', Obj [(''primary'', Str ''#000000'')])]] = Inl TypeError"
  by (simp add: creation_response_def index0_def creation_message_def member_def nullish_def
      callable_def)

lemma example_template_ok: "is_template example_template"
  by (simp add: is_template_def example_template_def nullish_def printable_def)

section \<open>Properties of the schema constraints\<close>

lemma rows_with_absent: "Some v \<notin> set (map col rows) \<Longrightarrow> rows_with col v rows = []"
  by (induction rows) (auto simp: rows_with_def)

lemma sql_unique_rows_with: "sql_unique col rows \<Longrightarrow> length (rows_with col v rows) \<le> 1"
proof (induction rows)
  case Nil
  then show ?case by (simp add: rows_with_def)
next
  case (Cons r rows)
  from Cons.prems have rest: "sql_unique col rows"
    by (simp add: sql_unique_def split: if_splits)
  show ?case
  proof (cases "col r = Some v")
    case True
    with Cons.prems have "Some v \<notin> set (map col rows)"
      by (auto simp: sql_unique_def)
    then have "rows_with col v rows = []" by (rule rows_with_absent)
    with True show ?thesis by (simp add: rows_with_def)
  next
    case False
    with Cons.IH [OF rest] show ?thesis by (simp add: rows_with_def)
  qed
qed

lemma example_database_ok: "schema_constraints example_database"
  by (simp add: schema_constraints_def example_database_def primary_key_def not_null_def
      sql_unique_def foreign_key_def)

section \<open>The keyword classifier\<close>

text \<open>
  C1. For every message string, the responder takes the creation branch if and only if
  the lower-cased message contains one of the substrings "create", "new", "generate";
  every other message gets the conversation answer. The match is by substring on the
  lower-cased text, so "CREATE", "New", "GENERATE" and "created" are creation requests.
\<close>

theorem creation_request_iff_keyword:
  "isCreationRequest (Str m) =
     Inr (\<exists>k \<in> {''create'', ''new'', ''generate''}. \<exists>p q. toLowerCase m = p @ k @ q)
   \<and> generateSandraStyleguideResponse (ctx\<lparr>message := Str m\<rparr>) =
       (if \<exists>k \<in> {''create'', ''new'', ''generate''}. \<exists>p q. toLowerCase m = p @ k @ q
        then creation_response (onboardingData ctx) (availableTemplates ctx)
        else Inr conversation_response)"
  by (simp add: generateSandraStyleguideResponse_def isCreationRequest_Str str_includes_iff)

theorem creation_request_iff_keyword_witness:
  "isCreationRequest (Str ''CREATE'') = Inr True
   \<and> isCreationRequest (Str ''New'') = Inr True
   \<and> isCreationRequest (Str ''GENERATE'') = Inr True
   \<and> isCreationRequest (Str ''created'') = Inr True
   \<and> isCreationRequest (Str ''hello'') = Inr False
   \<and> (\<exists>k \<in> {''create'', ''new'', ''generate''}. \<exists>p q. toLowerCase ''created'' = p @ k @ q)
   \<and> \<not> (\<exists>k \<in> {''create'', ''new'', ''generate''}. \<exists>p q. toLowerCase ''hello'' = p @ k @ q)"
proof -
  have a: "isCreationRequest (Str ''CREATE'') = Inr True" by code_simp
  have b: "isCreationRequest (Str ''New'') = Inr True" by code_simp
  have c: "isCreationRequest (Str ''GENERATE'') = Inr True" by code_simp
  have d: "isCreationRequest (Str ''created'') = Inr True" by code_simp
  have e: "isCreationRequest (Str ''hello'') = Inr False" by code_simp
  have "\<exists>k \<in> {''create'', ''new'', ''generate''}. \<exists>p q. toLowerCase ''created'' = p @ k @ q"
    using creation_request_iff_keyword [of "''created''", THEN conjunct1] d by simp
  moreover
  have "\<not> (\<exists>k \<in> {''create'', ''new'', ''generate''}. \<exists>p q. toLowerCase ''hello'' = p @ k @ q)"
    using creation_request_iff_keyword [of "''hello''", THEN conjunct1] e by simp
  ultimately show ?thesis using a b c d e by blast
qed

section \<open>The creation branch\<close>

text \<open>
  C2. On a creation request with a non-empty list of templates, the responder returns an
  object of type "styleguide_created" whose \<^verbatim>\<open>styleguideData.templateId\<close> and
  \<^verbatim>\<open>templateApplied\<close> are the id of the first template, and whose
  \<^verbatim>\<open>styleguideData\<close> carries that template's colors, typography, voiceProfile and
  visualElements together with the mission, voice and audience of the onboarding data
  (or their placeholders). Its message narrates the template's name, its description in
  lower case, its headline font and its primary color. "please create something" is such
  a request.
\<close>

theorem creation_response_uses_first_template:
  assumes "is_template t" and "isCreationRequest msg = Inr True"
  shows "\<exists>name description headline primary.
     toString (get_property t ''name'') = Inr name
     \<and> get_property t ''description'' = Str description
     \<and> toString (get_property (get_property t ''typography'') ''headline'') = Inr headline
     \<and> toString (get_property (get_property t ''colors'') ''primary'') = Inr primary
     \<and> generateSandraStyleguideResponse
       \<lparr>message = msg, userId = uid, onboardingData = ob, currentStyleguide = cur,
        availableTemplates = t # ts\<rparr> =
     Inr (Obj
       [(''type'', Str ''styleguide_created''),
        (''message'', Str (''I've created a beautiful \"'' @ name
            @ ''\" styleguide for you! This template features '' @ toLowerCase description
            @ ''. It uses '' @ headline
            @ '' typography and a sophisticated color palette with '' @ primary
            @ '' as the primary color. Perfect for your brand personality!'')),
        (''styleguideData'', Obj
           [(''templateId'', get_property t ''id''),
            (''templateName'', get_property t ''name''),
            (''colors'', get_property t ''colors''),
            (''typography'', get_property t ''typography''),
            (''voiceProfile'', get_property t ''voiceProfile''),
            (''visualElements'', get_property t ''visualElements''),
            (''personalMission'',
               logical_or (optional_member ob ''personalMission'')
                 (Str ''Your unique mission and vision'')),
            (''brandVoice'',
               logical_or (optional_member ob ''brandVoice'') (Str ''Professional and authentic'')),
            (''targetAudience'',
               logical_or (optional_member ob ''targetAudience'') (Str ''Your ideal clients''))]),
        (''templateApplied'', get_property t ''id'')])"
  using creation_response_template [OF assms(1), of ob ts] assms(2)
  by (simp add: generateSandraStyleguideResponse_def)

theorem creation_response_uses_first_template_witness:
  "is_template example_template
   \<and> isCreationRequest (Str ''please create something'') = Inr True
   \<and> generateSandraStyleguideResponse
        \<lparr>message = Str ''please create something'', userId = Str ''user-1'',
         onboardingData = Obj [(''personalMission'', Str ''Help founders''), (''brandVoice'', Str [])],
         currentStyleguide = Null,
         availableTemplates = [example_template, Null]\<rparr> =
      Inr (Obj
        [(''type'', Str ''styleguide_created''),
         (''message'', Str ''I've created a beautiful \"Refined Minimal\" styleguide for you! This template features clean lines and generous whitespace. It uses Helvetica Neue typography and a sophisticated color palette with #1a1a1a as the primary color. Perfect for your brand personality!''),
         (''styleguideData'', Obj
            [(''templateId'', Str ''minimalistic''),
             (''templateName'', Str ''Refined Minimal''),
             (''colors'', Obj [(''primary'', Str ''#1a1a1a''), (''background'', Str ''#fefefe'')]),
             (''typography'', Obj [(''headline'', Str ''Helvetica Neue''), (''body'', Str ''Inter'')]),
             (''voiceProfile'', Obj [(''tone'', Str ''calm'')]),
             (''visualElements'', Arr [Str ''thin rules'']),
             (''personalMission'', Str ''Help founders''),
             (''brandVoice'', Str ''Professional and authentic''),
             (''targetAudience'', Str ''Your ideal clients'')]),
         (''templateApplied'', Str ''minimalistic'')])"
proof -
  have c: "isCreationRequest (Str ''please create something'') = Inr True" by code_simp
  have l: "toLowerCase ''Clean Lines and Generous Whitespace'' =
      ''clean lines and generous whitespace''"
    by code_simp
  from creation_response_uses_first_template [OF example_template_ok c,
        of "Str ''user-1''"
           "Obj [(''personalMission'', Str ''Help founders''), (''brandVoice'', Str [])]"
           Null "[Null]"]
  have "generateSandraStyleguideResponse
        \<lparr>message = Str ''please create something'', userId = Str ''user-1'',
         onboardingData = Obj [(''personalMission'', Str ''Help founders''), (''brandVoice'', Str [])],
         currentStyleguide = Null,
         availableTemplates = [example_template, Null]\<rparr> =
      Inr (Obj
        [(''type'', Str ''styleguide_created''),
         (''message'', Str ''I've created a beautiful \"Refined Minimal\" styleguide for you! This template features clean lines and generous whitespace. It uses Helvetica Neue typography and a sophisticated color palette with #1a1a1a as the primary color. Perfect for your brand personality!''),
         (''styleguideData'', Obj
            [(''templateId'', Str ''minimalistic''),
             (''templateName'', Str ''Refined Minimal''),
             (''colors'', Obj [(''primary'', Str ''#1a1a1a''), (''background'', Str ''#fefefe'')]),
             (''typography'', Obj [(''headline'', Str ''Helvetica Neue''), (''body'', Str ''Inter'')]),
             (''voiceProfile'', Obj [(''tone'', Str ''calm'')]),
             (''visualElements'', Arr [Str ''thin rules'']),
             (''personalMission'', Str ''Help founders''),
             (''brandVoice'', Str ''Professional and authentic''),
             (''targetAudience'', Str ''Your ideal clients'')]),
         (''templateApplied'', Str ''minimalistic'')])"
    by (auto simp add: example_template_def optional_member_def logical_or_def nullish_def l)
  with example_template_ok c show ?thesis by blast
qed

text \<open>
  C3. On a creation request, when the onboarding lookup gave nothing
  (\<^verbatim>\<open>undefined\<close> or \<^verbatim>\<open>null\<close>), the \<^verbatim>\<open>styleguideData\<close> of the answer has
  \<^verbatim>\<open>personalMission\<close> "Your unique mission and vision", \<^verbatim>\<open>brandVoice\<close>
  "Professional and authentic" and \<^verbatim>\<open>targetAudience\<close> "Your ideal clients".
\<close>

theorem creation_response_placeholders:
  assumes "is_template t" and "isCreationRequest msg = Inr True" and "nullish ob"
  shows "\<exists>r.
     generateSandraStyleguideResponse
       \<lparr>message = msg, userId = uid, onboardingData = ob, currentStyleguide = cur,
        availableTemplates = t # ts\<rparr> = Inr r
     \<and> get_property (get_property r ''styleguideData'') ''personalMission'' =
         Str ''Your unique mission and vision''
     \<and> get_property (get_property r ''styleguideData'') ''brandVoice'' =
         Str ''Professional and authentic''
     \<and> get_property (get_property r ''styleguideData'') ''targetAudience'' =
         Str ''Your ideal clients''"
proof -
  from creation_response_template [OF assms(1), of ob ts]
  obtain narration where r: "creation_response ob (t # ts) =
     Inr (Obj
       [(''type'', Str ''styleguide_created''),
        (''message'', Str narration),
        (''styleguideData'', Obj
           [(''templateId'', get_property t ''id''),
            (''templateName'', get_property t ''name''),
            (''colors'', get_property t ''colors''),
            (''typography'', get_property t ''typography''),
            (''voiceProfile'', get_property t ''voiceProfile''),
            (''visualElements'', get_property t ''visualElements''),
            (''personalMission'',
               logical_or (optional_member ob ''personalMission'')
                 (Str ''Your unique mission and vision'')),
            (''brandVoice'',
               logical_or (optional_member ob ''brandVoice'') (Str ''Professional and authentic'')),
            (''targetAudience'',
               logical_or (optional_member ob ''targetAudience'') (Str ''Your ideal clients''))]),
        (''templateApplied'', get_property t ''id'')])"
    by blast
  have "generateSandraStyleguideResponse
       \<lparr>message = msg, userId = uid, onboardingData = ob, currentStyleguide = cur,
        availableTemplates = t # ts\<rparr> =
     Inr (Obj
       [(''type'', Str ''styleguide_created''),
        (''message'', Str narration),
        (''styleguideData'', Obj
           [(''templateId'', get_property t ''id''),
            (''templateName'', get_property t ''name''),
            (''colors'', get_property t ''colors''),
            (''typography'', get_property t ''typography''),
            (''voiceProfile'', get_property t ''voiceProfile''),
            (''visualElements'', get_property t ''visualElements''),
            (''personalMission'',
               logical_or (optional_member ob ''personalMission'')
                 (Str ''Your unique mission and vision'')),
            (''brandVoice'',
               logical_or (optional_member ob ''brandVoice'') (Str ''Professional and authentic'')),
            (''targetAudience'',
               logical_or (optional_member ob ''targetAudience'') (Str ''Your ideal clients''))]),
        (''templateApplied'', get_property t ''id'')])"
    using assms(2) r by (simp add: generateSandraStyleguideResponse_def)
  then show ?thesis
    using assms(3) by (simp add: optional_member_def logical_or_def)
qed

theorem creation_response_placeholders_witness:
  "is_template example_template
   \<and> isCreationRequest (Str ''a new look'') = Inr True
   \<and> nullish Undefined
   \<and> (\<exists>r.
        generateSandraStyleguideResponse
          \<lparr>message = Str ''a new look'', userId = Str ''user-1'', onboardingData = Undefined,
           currentStyleguide = Null, availableTemplates = [example_template]\<rparr> = Inr r
        \<and> get_property (get_property r ''styleguideData'') ''personalMission'' =
            Str ''Your unique mission and vision''
        \<and> get_property (get_property r ''styleguideData'') ''brandVoice'' =
            Str ''Professional and authentic''
        \<and> get_property (get_property r ''styleguideData'') ''targetAudience'' =
            Str ''Your ideal clients'')"
proof -
  have c: "isCreationRequest (Str ''a new look'') = Inr True" by code_simp
  have n: "nullish Undefined" by (simp add: nullish_def)
  show ?thesis
    using creation_response_placeholders [OF example_template_ok c n, of "Str ''user-1''" Null "[]"]
      example_template_ok c n
    by blast
qed

section \<open>What the responder does not read\<close>

text \<open>The caller's id is put into the context by the chat route and never read by the
  responder.\<close>

lemma responder_ignores_userId:
  "generateSandraStyleguideResponse (ctx\<lparr>userId := a\<rparr>) =
   generateSandraStyleguideResponse (ctx\<lparr>userId := b\<rparr>)"
  by (simp add: generateSandraStyleguideResponse_def cong: if_cong)

text \<open>
  C10. The answer does not depend on the caller's current styleguide draft: for any two
  values of \<^verbatim>\<open>currentStyleguide\<close>, everything else equal, the responder returns the
  same result.
\<close>

theorem responder_ignores_currentStyleguide:
  "generateSandraStyleguideResponse (ctx\<lparr>currentStyleguide := a\<rparr>) =
   generateSandraStyleguideResponse (ctx\<lparr>currentStyleguide := b\<rparr>)"
  by (simp add: generateSandraStyleguideResponse_def cong: if_cong)

theorem responder_ignores_currentStyleguide_witness:
  "generateSandraStyleguideResponse
     \<lparr>message = Str ''something new'', userId = Str ''user-1'', onboardingData = Undefined,
      currentStyleguide = Obj [(''title'', Str ''Draft'')],
      availableTemplates = [example_template]\<rparr> =
   generateSandraStyleguideResponse
     \<lparr>message = Str ''something new'', userId = Str ''user-1'', onboardingData = Undefined,
      currentStyleguide = Undefined, availableTemplates = [example_template]\<rparr>"
  using responder_ignores_currentStyleguide
    [where ctx = "\<lparr>message = Str ''something new'', userId = Str ''user-1'',
          onboardingData = Undefined, currentStyleguide = Null,
          availableTemplates = [example_template]\<rparr>"
       and a = "Obj [(''title'', Str ''Draft'')]" and b = Undefined]
  by simp

section \<open>The conversation branch\<close>

text \<open>
  C7. For every message that is not a creation request, "hello" for one, the responder
  returns an object of type "conversation" with the fixed invitation and exactly the
  three suggestions "Create my styleguide", "Show me templates" and "What information
  do you need?".
\<close>

theorem conversation_response_otherwise:
  "isCreationRequest (message ctx) = Inr False \<Longrightarrow>
   generateSandraStyleguideResponse ctx =
     Inr (Obj
       [(''type'', Str ''conversation''),
        (''message'', Str ''I'd love to help you create your personalized styleguide! I can create a beautiful brand bible using your AI images, personal story, and preferences. Just say \"create my styleguide\" and I'll get started!''),
        (''suggestions'',
           Arr [Str ''Create my styleguide'',
                Str ''Show me templates'',
                Str ''What information do you need?''])])"
  by (simp add: generateSandraStyleguideResponse_def conversation_response_def)

theorem conversation_response_otherwise_witness:
  "isCreationRequest (Str ''hello'') = Inr False
   \<and> generateSandraStyleguideResponse
       \<lparr>message = Str ''hello'', userId = Str ''user-1'', onboardingData = Undefined,
        currentStyleguide = Undefined, availableTemplates = []\<rparr> =
     Inr (Obj
       [(''type'', Str ''conversation''),
        (''message'', Str ''I'd love to help you create your personalized styleguide! I can create a beautiful brand bible using your AI images, personal story, and preferences. Just say \"create my styleguide\" and I'll get started!''),
        (''suggestions'',
           Arr [Str ''Create my styleguide'',
                Str ''Show me templates'',
                Str ''What information do you need?''])])
   \<and> length [Str ''Create my styleguide'', Str ''Show me templates'',
               Str ''What information do you need?''] = 3"
proof -
  have c: "isCreationRequest (Str ''hello'') = Inr False" by code_simp
  show ?thesis
    using conversation_response_otherwise
      [of "\<lparr>message = Str ''hello'', userId = Str ''user-1'', onboardingData = Undefined,
            currentStyleguide = Undefined, availableTemplates = []\<rparr>"] c
    by simp
qed

section \<open>The routes\<close>

text \<open>
  C4 reads: for "demo123" the GET route returns a fixed document. The document is not the
  same on every request: two requests at different times differ in \<^verbatim>\<open>createdAt\<close>
  and \<^verbatim>\<open>updatedAt\<close>.
\<close>

theorem demo_styleguide_not_fixed:
  "fst (GET_styleguide ''2025-07-01T10:00:00.000Z'' ''2025-07-01T10:00:00.000Z''
          (anonymous_request\<lparr>req_params_userId := ''demo123''\<rparr>) example_world) \<noteq>
   fst (GET_styleguide ''2025-07-02T08:30:00.000Z'' ''2025-07-02T08:30:00.000Z''
          (anonymous_request\<lparr>req_params_userId := ''demo123''\<rparr>) example_world)"
  by (simp add: GET_styleguide_def try_catch_def try_GET_styleguide_def demoStyleguide_def)

text \<open>
  C4, as the code has it. For the identifier "demo123" the GET route answers 200 with the
  demo document: its seventeen fields are the ones listed, \<^verbatim>\<open>isActive\<close> is true, and
  every field is the same on every request except \<^verbatim>\<open>createdAt\<close> and
  \<^verbatim>\<open>updatedAt\<close>, which hold the clock readings of the request. For every other
  identifier it answers 404 with a message. In both cases the world is left as it was: no
  storage call is made.
\<close>

theorem demo_styleguide_or_not_found:
  "GET_styleguide createdAt updatedAt (req\<lparr>req_params_userId := ''demo123''\<rparr>) w =
     (Inr \<lparr>status = 200, json_body = demoStyleguide createdAt updatedAt\<rparr>, w)
   \<and> keys (demoStyleguide createdAt updatedAt) =
       [''id'', ''userId'', ''templateId'', ''title'', ''subtitle'', ''personalMission'',
        ''brandVoice'', ''targetAudience'', ''visualStyle'', ''colorPalette'', ''typography'',
        ''imageSelections'', ''brandPersonality'', ''businessApplications'', ''isActive'',
        ''createdAt'', ''updatedAt'']
   \<and> get_property (demoStyleguide createdAt updatedAt) ''isActive'' = Bool True
   \<and> get_property (demoStyleguide createdAt updatedAt) ''createdAt'' = Str createdAt
   \<and> get_property (demoStyleguide createdAt updatedAt) ''updatedAt'' = Str updatedAt
   \<and> (\<forall>k. k \<noteq> ''createdAt'' \<and> k \<noteq> ''updatedAt'' \<longrightarrow>
          get_property (demoStyleguide createdAt updatedAt) k =
          get_property (demoStyleguide createdAt' updatedAt') k)
   \<and> (uid \<noteq> ''demo123'' \<longrightarrow>
        GET_styleguide createdAt updatedAt (req\<lparr>req_params_userId := uid\<rparr>) w =
          (Inr \<lparr>status = 404, json_body = Obj [(''message'', Str ''Styleguide not found'')]\<rparr>, w))"
  by (simp add: GET_styleguide_def try_catch_def try_GET_styleguide_def demoStyleguide_def)

theorem demo_styleguide_or_not_found_witness:
  "get_property (demoStyleguide ''2025-07-01T10:00:00.000Z'' ''2025-07-01T10:00:00.001Z'') ''title'' =
   get_property (demoStyleguide ''2025-07-02T08:30:00.000Z'' ''2025-07-02T08:30:00.000Z'') ''title''
   \<and> ''Demo123'' \<noteq> ''demo123''
   \<and> GET_styleguide ''2025-07-01T10:00:00.000Z'' ''2025-07-01T10:00:00.001Z''
        (anonymous_request\<lparr>req_params_userId := ''Demo123''\<rparr>) example_world =
       (Inr \<lparr>status = 404, json_body = Obj [(''message'', Str ''Styleguide not found'')]\<rparr>,
        example_world)"
  using demo_styleguide_or_not_found
    [of "''2025-07-01T10:00:00.000Z''" "''2025-07-01T10:00:00.001Z''" anonymous_request
        example_world "''2025-07-02T08:30:00.000Z''" "''2025-07-02T08:30:00.000Z''" "''Demo123''"]
  by simp

text \<open>
  C5. When the caller's identity \<^verbatim>\<open>req.user?.claims?.sub\<close> is missing (or falsy in
  any other way), POST /api/styleguide answers 401 with the body
  \<^verbatim>\<open>{ message: "User not authenticated" }\<close> and leaves the world as it was: the
  persisted state is unchanged and no storage call has been added.
\<close>

theorem post_styleguide_unauthenticated:
  "\<not> truthy (caller_identity req) \<Longrightarrow>
   POST_styleguide S req w =
     (Inr \<lparr>status = 401, json_body = Obj [(''message'', Str ''User not authenticated'')]\<rparr>, w)"
  by (simp add: POST_styleguide_def try_catch_def try_POST_styleguide_def unauthenticated_def)

theorem post_styleguide_unauthenticated_witness:
  "\<not> truthy (caller_identity anonymous_request)
   \<and> POST_styleguide example_storage anonymous_request example_world =
       (Inr \<lparr>status = 401, json_body = Obj [(''message'', Str ''User not authenticated'')]\<rparr>,
        example_world)
   \<and> storage_calls (snd (POST_styleguide example_storage anonymous_request example_world)) = []
   \<and> store (snd (POST_styleguide example_storage anonymous_request example_world)) = []"
proof -
  have h: "\<not> truthy (caller_identity anonymous_request)"
    by (simp add: caller_identity_def anonymous_request_def optional_member_def nullish_def)
  show ?thesis
    using h post_styleguide_unauthenticated [OF h, of example_storage example_world]
    by (simp add: example_world_def)
qed

text \<open>On success the two POST routes answer 200 with what the storage call, or the
  responder, returned; each makes its one storage call and logs nothing.\<close>

lemma post_styleguide_stores:
  assumes "truthy (caller_identity req)"
    and "createOrUpdateStyleguide S (caller_identity req) (req_body req) (store w) =
           (Inr styleguide, st)"
  shows "POST_styleguide S req w =
     (Inr \<lparr>status = 200, json_body = styleguide\<rparr>,
      w\<lparr>store := st,
        storage_calls :=
          storage_calls w @ [CreateOrUpdateStyleguide (caller_identity req) (req_body req)]\<rparr>)"
  using assms
  by (simp add: POST_styleguide_def try_catch_def try_POST_styleguide_def
      await_createOrUpdateStyleguide_def)

lemma post_styleguide_chat_answers:
  assumes "truthy (caller_identity req)" and "\<not> nullish (req_body req)"
    and "getOnboardingData S (caller_identity req) (store w) = (Inr onboarding, st)"
    and "generateSandraStyleguideResponse
          \<lparr>message = get_property (req_body req) ''message'',
           userId = caller_identity req,
           onboardingData = onboarding,
           currentStyleguide = get_property (req_body req) ''currentStyleguide'',
           availableTemplates = [tmpl]\<rparr> = Inr answer"
  shows "POST_styleguide_chat S tmpl req w =
     (Inr \<lparr>status = 200, json_body = answer\<rparr>,
      w\<lparr>store := st,
        storage_calls := storage_calls w @ [GetOnboardingData (caller_identity req)]\<rparr>)"
  using assms
  by (simp add: POST_styleguide_chat_def try_catch_def try_POST_styleguide_chat_def
      await_getOnboardingData_def member_def)

text \<open>
  C8. Every route registered by \<^verbatim>\<open>registerStyleguideRoutes\<close> ends with a response,
  never with an exception; the response has status 200, or has status 401, 404 or 500 and
  a body of the shape \<^verbatim>\<open>{ message: string }\<close>. Whatever is raised inside a route's
  \<^verbatim>\<open>try\<close> is caught: the route answers 500 with its failure message, logs the
  error, and leaves the world as the failed attempt left it, so nothing is tried again.
  In particular, for a caller with an identity:
  \<^item> when \<^verbatim>\<open>storage.createOrUpdateStyleguide\<close> rejects, POST /api/styleguide answers
    500 "Failed to create styleguide", after that one call;
  \<^item> when the body of a chat request is \<^verbatim>\<open>undefined\<close> or \<^verbatim>\<open>null\<close>,
    POST /api/styleguide-chat answers 500 "Failed to process styleguide request" without
    a storage call;
  \<^item> when \<^verbatim>\<open>storage.getOnboardingData\<close> rejects, it answers the same 500, after
    that one call;
  \<^item> when the responder raises, it answers the same 500, after the one lookup.
\<close>

theorem route_failures_are_messages:
  "(\<exists>resp w'.
      registerStyleguideRoutes S tmpl createdAt updatedAt r req w = (Inr resp, w')
      \<and> (status resp = 200
           \<or> (status resp = 401 \<or> status resp = 404 \<or> status resp = 500)
              \<and> message_body (json_body resp)))
   \<and> (\<forall>error w1.
        route_try S tmpl createdAt updatedAt r req w = (Inl error, w1) \<longrightarrow>
        registerStyleguideRoutes S tmpl createdAt updatedAt r req w =
          (Inr \<lparr>status = 500, json_body = Obj [(''message'', Str (failure_message r))]\<rparr>,
           w1\<lparr>console_error := console_error w1 @ [(failure_label r, error)]\<rparr>))
   \<and> (\<forall>error st.
        truthy (caller_identity req) \<and>
        createOrUpdateStyleguide S (caller_identity req) (req_body req) (store w) = (Inl error, st)
        \<longrightarrow>
        registerStyleguideRoutes S tmpl createdAt updatedAt Post_styleguide req w =
          (Inr \<lparr>status = 500, json_body = Obj [(''message'', Str ''Failed to create styleguide'')]\<rparr>,
           w\<lparr>store := st,
             storage_calls :=
               storage_calls w @ [CreateOrUpdateStyleguide (caller_identity req) (req_body req)],
             console_error := console_error w @ [(''Error creating styleguide:'', error)]\<rparr>))
   \<and> (truthy (caller_identity req) \<and> nullish (req_body req) \<longrightarrow>
        registerStyleguideRoutes S tmpl createdAt updatedAt Post_styleguide_chat req w =
          (Inr \<lparr>status = 500,
                json_body = Obj [(''message'', Str ''Failed to process styleguide request'')]\<rparr>,
           w\<lparr>console_error :=
               console_error w @ [(''Error in SANDRA styleguide chat:'', TypeError)]\<rparr>))
   \<and> (\<forall>error st.
        truthy (caller_identity req) \<and> \<not> nullish (req_body req) \<and>
        getOnboardingData S (caller_identity req) (store w) = (Inl error, st)
        \<longrightarrow>
        registerStyleguideRoutes S tmpl createdAt updatedAt Post_styleguide_chat req w =
          (Inr \<lparr>status = 500,
                json_body = Obj [(''message'', Str ''Failed to process styleguide request'')]\<rparr>,
           w\<lparr>store := st,
             storage_calls := storage_calls w @ [GetOnboardingData (caller_identity req)],
             console_error :=
               console_error w @ [(''Error in SANDRA styleguide chat:'', error)]\<rparr>))
   \<and> (\<forall>onboarding error st.
        truthy (caller_identity req) \<and> \<not> nullish (req_body req) \<and>
        getOnboardingData S (caller_identity req) (store w) = (Inr onboarding, st) \<and>
        generateSandraStyleguideResponse
          \<lparr>message = get_property (req_body req) ''message'',
           userId = caller_identity req,
           onboardingData = onboarding,
           currentStyleguide = get_property (req_body req) ''currentStyleguide'',
           availableTemplates = [tmpl]\<rparr> = Inl error
        \<longrightarrow>
        registerStyleguideRoutes S tmpl createdAt updatedAt Post_styleguide_chat req w =
          (Inr \<lparr>status = 500,
                json_body = Obj [(''message'', Str ''Failed to process styleguide request'')]\<rparr>,
           w\<lparr>store := st,
             storage_calls := storage_calls w @ [GetOnboardingData (caller_identity req)],
             console_error :=
               console_error w @ [(''Error in SANDRA styleguide chat:'', error)]\<rparr>))"
proof (intro conjI)
  show "(\<exists>resp w'.
      registerStyleguideRoutes S tmpl createdAt updatedAt r req w = (Inr resp, w')
      \<and> (status resp = 200
           \<or> (status resp = 401 \<or> status resp = 404 \<or> status resp = 500)
              \<and> message_body (json_body resp)))"
  proof (cases r)
    case Get_styleguide
    then show ?thesis
      by (simp add: GET_styleguide_def try_catch_def try_GET_styleguide_def)
  next
    case Post_styleguide
    then show ?thesis
      by (auto simp add: POST_styleguide_def try_catch_def try_POST_styleguide_def
          unauthenticated_def catch_block_def Let_def
          split: prod.splits sum.splits if_splits)
  next
    case Get_styleguide_templates
    then show ?thesis
      by (simp add: GET_styleguide_templates_def try_catch_def try_GET_styleguide_templates_def)
  next
    case Post_styleguide_chat
    then show ?thesis
      by (auto simp add: POST_styleguide_chat_def try_catch_def try_POST_styleguide_chat_def
          unauthenticated_def catch_block_def Let_def
          split: prod.splits sum.splits if_splits)
  qed
next
  show "(\<forall>error w1.
        route_try S tmpl createdAt updatedAt r req w = (Inl error, w1) \<longrightarrow>
        registerStyleguideRoutes S tmpl createdAt updatedAt r req w =
          (Inr \<lparr>status = 500, json_body = Obj [(''message'', Str (failure_message r))]\<rparr>,
           w1\<lparr>console_error := console_error w1 @ [(failure_label r, error)]\<rparr>))"
    by (cases r)
       (simp_all add: GET_styleguide_def POST_styleguide_def GET_styleguide_templates_def
          POST_styleguide_chat_def try_catch_def catch_block_def)
next
  show "(\<forall>error st.
        truthy (caller_identity req) \<and>
        createOrUpdateStyleguide S (caller_identity req) (req_body req) (store w) = (Inl error, st)
        \<longrightarrow>
        registerStyleguideRoutes S tmpl createdAt updatedAt Post_styleguide req w =
          (Inr \<lparr>status = 500, json_body = Obj [(''message'', Str ''Failed to create styleguide'')]\<rparr>,
           w\<lparr>store := st,
             storage_calls :=
               storage_calls w @ [CreateOrUpdateStyleguide (caller_identity req) (req_body req)],
             console_error := console_error w @ [(''Error creating styleguide:'', error)]\<rparr>))"
    by (simp add: POST_styleguide_def try_catch_def try_POST_styleguide_def
        await_createOrUpdateStyleguide_def catch_block_def)
next
  show "(truthy (caller_identity req) \<and> nullish (req_body req) \<longrightarrow>
        registerStyleguideRoutes S tmpl createdAt updatedAt Post_styleguide_chat req w =
          (Inr \<lparr>status = 500,
                json_body = Obj [(''message'', Str ''Failed to process styleguide request'')]\<rparr>,
           w\<lparr>console_error :=
               console_error w @ [(''Error in SANDRA styleguide chat:'', TypeError)]\<rparr>))"
    by (simp add: POST_styleguide_chat_def try_catch_def try_POST_styleguide_chat_def
        member_def catch_block_def)
next
  show "(\<forall>error st.
        truthy (caller_identity req) \<and> \<not> nullish (req_body req) \<and>
        getOnboardingData S (caller_identity req) (store w) = (Inl error, st)
        \<longrightarrow>
        registerStyleguideRoutes S tmpl createdAt updatedAt Post_styleguide_chat req w =
          (Inr \<lparr>status = 500,
                json_body = Obj [(''message'', Str ''Failed to process styleguide request'')]\<rparr>,
           w\<lparr>store := st,
             storage_calls := storage_calls w @ [GetOnboardingData (caller_identity req)],
             console_error :=
               console_error w @ [(''Error in SANDRA styleguide chat:'', error)]\<rparr>))"
    by (simp add: POST_styleguide_chat_def try_catch_def try_POST_styleguide_chat_def
        await_getOnboardingData_def member_def catch_block_def)
next
  show "(\<forall>onboarding error st.
        truthy (caller_identity req) \<and> \<not> nullish (req_body req) \<and>
        getOnboardingData S (caller_identity req) (store w) = (Inr onboarding, st) \<and>
        generateSandraStyleguideResponse
          \<lparr>message = get_property (req_body req) ''message'',
           userId = caller_identity req,
           onboardingData = onboarding,
           currentStyleguide = get_property (req_body req) ''currentStyleguide'',
           availableTemplates = [tmpl]\<rparr> = Inl error
        \<longrightarrow>
        registerStyleguideRoutes S tmpl createdAt updatedAt Post_styleguide_chat req w =
          (Inr \<lparr>status = 500,
                json_body = Obj [(''message'', Str ''Failed to process styleguide request'')]\<rparr>,
           w\<lparr>store := st,
             storage_calls := storage_calls w @ [GetOnboardingData (caller_identity req)],
             console_error :=
               console_error w @ [(''Error in SANDRA styleguide chat:'', error)]\<rparr>))"
    by (simp add: POST_styleguide_chat_def try_catch_def try_POST_styleguide_chat_def
        await_getOnboardingData_def member_def catch_block_def)
qed

theorem route_failures_are_messages_witness:
  "registerStyleguideRoutes rejecting_storage example_template [] [] Post_styleguide
       signed_in_request example_world =
     (Inr \<lparr>status = 500, json_body = Obj [(''message'', Str ''Failed to create styleguide'')]\<rparr>,
      \<lparr>store = [],
       storage_calls =
         [CreateOrUpdateStyleguide (Str ''user-1'') (Obj [(''title'', Str ''Mine'')])],
       console_error = [(''Error creating styleguide:'', Rejected (Str ''connection lost''))]\<rparr>)
   \<and> registerStyleguideRoutes rejecting_storage example_template [] [] Post_styleguide_chat
       signed_in_request example_world =
     (Inr \<lparr>status = 500,
           json_body = Obj [(''message'', Str ''Failed to process styleguide request'')]\<rparr>,
      \<lparr>store = [],
       storage_calls = [GetOnboardingData (Str ''user-1'')],
       console_error =
         [(''Error in SANDRA styleguide chat:'', Rejected (Str ''connection lost''))]\<rparr>)
   \<and> registerStyleguideRoutes example_storage example_template [] [] Post_styleguide_chat
       (signed_in_request\<lparr>req_body := Null\<rparr>) example_world =
     (Inr \<lparr>status = 500,
           json_body = Obj [(''message'', Str ''Failed to process styleguide request'')]\<rparr>,
      \<lparr>store = [], storage_calls = [],
       console_error = [(''Error in SANDRA styleguide chat:'', TypeError)]\<rparr>)
   \<and> registerStyleguideRoutes example_storage example_template [] [] Post_styleguide_chat
       signed_in_request example_world =
     (Inr \<lparr>status = 500,
           json_body = Obj [(''message'', Str ''Failed to process styleguide request'')]\<rparr>,
      \<lparr>store = [],
       storage_calls = [GetOnboardingData (Str ''user-1'')],
       console_error = [(''Error in SANDRA styleguide chat:'', TypeError)]\<rparr>)"
proof -
  have uid: "caller_identity signed_in_request = Str ''user-1''"
    by (simp add: caller_identity_def signed_in_request_def optional_member_def nullish_def)
  have uid': "caller_identity (signed_in_request\<lparr>req_body := Null\<rparr>) = Str ''user-1''"
    by (simp add: caller_identity_def signed_in_request_def optional_member_def nullish_def)
  have body: "req_body signed_in_request = Obj [(''title'', Str ''Mine'')]"
    by (simp add: signed_in_request_def)
  have create: "createOrUpdateStyleguide rejecting_storage (Str ''user-1'')
      (Obj [(''title'', Str ''Mine'')]) [] = (Inl (Rejected (Str ''connection lost'')), [])"
    by (simp add: rejecting_storage_def)
  have lookup: "getOnboardingData rejecting_storage (Str ''user-1'') [] =
      (Inl (Rejected (Str ''connection lost'')), [])"
    by (simp add: rejecting_storage_def)
  have found: "getOnboardingData example_storage (Str ''user-1'') [] = (Inr Undefined, [])"
    by (simp add: example_storage_def)
  have raises: "generateSandraStyleguideResponse
      \<lparr>message = Undefined, userId = Str ''user-1'', onboardingData = Undefined,
       currentStyleguide = Undefined, availableTemplates = [example_template]\<rparr> = Inl TypeError"
    by (simp add: generateSandraStyleguideResponse_def isCreationRequest_def)
  note all = route_failures_are_messages
    [of rejecting_storage example_template "[]" "[]" Post_styleguide signed_in_request
        example_world]
  note chat = route_failures_are_messages
    [of example_storage example_template "[]" "[]" Post_styleguide_chat signed_in_request
        example_world]
  note empty = route_failures_are_messages
    [of example_storage example_template "[]" "[]" Post_styleguide_chat
        "signed_in_request\<lparr>req_body := Null\<rparr>" example_world]
  have a: "registerStyleguideRoutes rejecting_storage example_template [] [] Post_styleguide
       signed_in_request example_world =
     (Inr \<lparr>status = 500, json_body = Obj [(''message'', Str ''Failed to create styleguide'')]\<rparr>,
      \<lparr>store = [],
       storage_calls =
         [CreateOrUpdateStyleguide (Str ''user-1'') (Obj [(''title'', Str ''Mine'')])],
       console_error = [(''Error creating styleguide:'', Rejected (Str ''connection lost''))]\<rparr>)"
    using all create by (simp add: uid body example_world_def)
  have b: "registerStyleguideRoutes rejecting_storage example_template [] [] Post_styleguide_chat
       signed_in_request example_world =
     (Inr \<lparr>status = 500,
           json_body = Obj [(''message'', Str ''Failed to process styleguide request'')]\<rparr>,
      \<lparr>store = [],
       storage_calls = [GetOnboardingData (Str ''user-1'')],
       console_error =
         [(''Error in SANDRA styleguide chat:'', Rejected (Str ''connection lost''))]\<rparr>)"
    using all lookup by (simp add: uid body example_world_def nullish_def)
  have c: "registerStyleguideRoutes example_storage example_template [] [] Post_styleguide_chat
       (signed_in_request\<lparr>req_body := Null\<rparr>) example_world =
     (Inr \<lparr>status = 500,
           json_body = Obj [(''message'', Str ''Failed to process styleguide request'')]\<rparr>,
      \<lparr>store = [], storage_calls = [],
       console_error = [(''Error in SANDRA styleguide chat:'', TypeError)]\<rparr>)"
    using empty by (simp add: uid' example_world_def nullish_def)
  have d: "registerStyleguideRoutes example_storage example_template [] [] Post_styleguide_chat
       signed_in_request example_world =
     (Inr \<lparr>status = 500,
           json_body = Obj [(''message'', Str ''Failed to process styleguide request'')]\<rparr>,
      \<lparr>store = [],
       storage_calls = [GetOnboardingData (Str ''user-1'')],
       console_error = [(''Error in SANDRA styleguide chat:'', TypeError)]\<rparr>)"
    using chat found raises by (simp add: uid body example_world_def nullish_def)
  from a b c d show ?thesis by blast
qed

section \<open>The uniqueness rules of the schema\<close>

text \<open>
  C9. In every database state that satisfies the declared constraints, a user has at most
  one row in \<^verbatim>\<open>user_models\<close>; every model has a trigger word and no two models have
  the same one; no two rows of \<^verbatim>\<open>domains\<close> have the same domain string, and no two
  have the same subdomain string.
\<close>

theorem schema_uniqueness:
  "schema_constraints db \<Longrightarrow>
     length (rows_with user_models_user_id uid (user_models db)) \<le> 1
   \<and> list_all (\<lambda>m. user_models_trigger_word m \<noteq> None) (user_models db)
   \<and> length (rows_with user_models_trigger_word word (user_models db)) \<le> 1
   \<and> length (rows_with domains_domain d (domains db)) \<le> 1
   \<and> length (rows_with domains_subdomain sd (domains db)) \<le> 1"
proof -
  assume ok: "schema_constraints db"
  have "length (rows_with user_models_user_id uid (user_models db)) \<le> 1"
    using ok by (intro sql_unique_rows_with) (simp add: schema_constraints_def)
  moreover have "list_all (\<lambda>m. user_models_trigger_word m \<noteq> None) (user_models db)"
    using ok by (simp add: schema_constraints_def not_null_def)
  moreover have "length (rows_with user_models_trigger_word word (user_models db)) \<le> 1"
    using ok by (intro sql_unique_rows_with) (simp add: schema_constraints_def)
  moreover have "length (rows_with domains_domain d (domains db)) \<le> 1"
    using ok by (intro sql_unique_rows_with) (simp add: schema_constraints_def)
  moreover have "length (rows_with domains_subdomain sd (domains db)) \<le> 1"
    using ok by (intro sql_unique_rows_with) (simp add: schema_constraints_def)
  ultimately show ?thesis by simp
qed

theorem schema_uniqueness_witness:
  "schema_constraints example_database
   \<and> length (rows_with user_models_user_id ''u1'' (user_models example_database)) \<le> 1
   \<and> length (rows_with user_models_trigger_word ''user2'' (user_models example_database)) \<le> 1
   \<and> length (rows_with domains_domain ''two.example'' (domains example_database)) \<le> 1
   \<and> length (rows_with domains_subdomain ''three'' (domains example_database)) \<le> 1"
  using schema_uniqueness
    [OF example_database_ok, of "''u1''" "''user2''" "''two.example''" "''three''"]
    example_database_ok
  by simp

end
